theory Spec2Isabelle
  imports Complex_Main
begin

section \<open>Numbers\<close>

text \<open>
  The engines compute with JavaScript numbers. Every quantity that decides a score is
  either an integer (a counter, a millisecond reading of \<open>Date.now()\<close>) or a quotient of
  such integers, so numbers are modelled exactly: counters as \<open>nat\<close>, clock readings as
  \<open>int\<close>, quotients and landmark coordinates as \<open>real\<close>. The rounding error of double
  arithmetic is not part of the model.

  \<open>Math.round\<close> returns the nearest integer and resolves a tie towards plus infinity.
\<close>

definition Math_round :: "real \<Rightarrow> int" where
  "Math_round x = \<lfloor>x + 1 / 2\<rfloor>"

section \<open>Stimulus Trial Engine (FieldTest.tsx)\<close>

text \<open>The value handed to \<open>onResult\<close>.\<close>

record FieldResult =
  score :: int
  misses :: nat
  avg :: real
  rts :: "int list"

text \<open>
  \<open>timerRef\<close> holds the id of one pending timeout: either the miss timer set by
  \<open>showDot\<close> or the 800 ms pause set by \<open>handleClick\<close>. The timeout that reveals the dot
  is not stored in \<open>timerRef\<close>; \<open>revealTimers\<close> counts the pending ones.
\<close>

datatype timer = MissTimer | PauseTimer

text \<open>
  The component's refs and the state they mirror. The state variables \<open>dotVisible\<close>,
  \<open>reactionTimes\<close>, \<open>misses\<close> and \<open>trial\<close> are copies of the refs kept for rendering
  and are not repeated here. \<open>results\<close> is the sequence of calls made to \<open>onResult\<close>.
\<close>

record FieldTest =
  started :: bool
  isDone :: bool
  totalTrials :: int
  maxReaction :: int
  reactionTimesRef :: "int list"
  missesRef :: nat
  trialRef :: int
  totalTrialsRef :: int
  maxReactionRef :: int
  startTimeRef :: "int option"
  dotVisibleRef :: bool
  timerRef :: "timer option"
  revealTimers :: nat
  results :: "FieldResult list"

definition initialFieldTest :: FieldTest where
  "initialFieldTest =
     \<lparr>started = False, isDone = False, totalTrials = 6, maxReaction = 2000,
      reactionTimesRef = [], missesRef = 0, trialRef = 0, totalTrialsRef = 6,
      maxReactionRef = 2000, startTimeRef = None, dotVisibleRef = False,
      timerRef = None, revealTimers = 0, results = []\<rparr>"

definition clearTimer :: "FieldTest \<Rightarrow> FieldTest" where
  "clearTimer s = s\<lparr>timerRef := None\<rparr>"

text \<open>The score line of \<open>finishTest\<close>, as a function of the two numbers it reads.\<close>

definition fieldScore :: "int \<Rightarrow> real \<Rightarrow> int" where
  "fieldScore m a =
     (let score = 10 - m - Math_round ((a - 200) / 200)
      in max 1 (min 10 score))"

definition finishTest :: "FieldTest \<Rightarrow> FieldTest" where
  "finishTest s =
     (let s1 = (clearTimer s)\<lparr>isDone := True\<rparr>;
          rs = reactionTimesRef s1;
          a = (if length rs \<noteq> 0
               then of_int (foldl (+) 0 rs) / of_nat (length rs)
               else of_int (maxReaction s1));
          sc = fieldScore (int (missesRef s1)) a
      in s1\<lparr>results := results s1 @
            [\<lparr>score = sc, misses = missesRef s1, avg = a, rts = rs\<rparr>]\<rparr>)"

text \<open>
  \<open>showDot\<close> hides the dot and sets two timeouts: the reveal after \<open>delay\<close> and the miss
  timer after \<open>delay + maxReaction\<close>. The random delay and the random position only
  affect when and where the dot is drawn.
\<close>

definition showDot :: "FieldTest \<Rightarrow> FieldTest" where
  "showDot s =
     (clearTimer s)\<lparr>dotVisibleRef := False, timerRef := Some MissTimer,
                     revealTimers := revealTimers s + 1\<rparr>"

text \<open>The callback of the reveal timeout; \<open>now\<close> is the reading of \<open>Date.now()\<close>.\<close>

definition revealTimeout :: "int \<Rightarrow> FieldTest \<Rightarrow> FieldTest" where
  "revealTimeout now s =
     s\<lparr>dotVisibleRef := True, startTimeRef := Some now,
       revealTimers := revealTimers s - 1\<rparr>"

text \<open>The callback of the miss timer.\<close>

definition missTimeout :: "FieldTest \<Rightarrow> FieldTest" where
  "missTimeout s =
     (let s1 = (if dotVisibleRef s then s\<lparr>missesRef := missesRef s + 1\<rparr> else s);
          s2 = s1\<lparr>dotVisibleRef := False\<rparr>
      in if trialRef s2 + 1 < totalTrialsRef s2
         then showDot (s2\<lparr>trialRef := trialRef s2 + 1\<rparr>)
         else finishTest s2)"

definition startTest :: "FieldTest \<Rightarrow> FieldTest" where
  "startTest s =
     showDot ((clearTimer s)
       \<lparr>reactionTimesRef := [], missesRef := 0, trialRef := 0,
        totalTrialsRef := totalTrials s, maxReactionRef := maxReaction s,
        isDone := False, started := True\<rparr>)"

text \<open>
  \<open>handleClick\<close> returns at once unless the dot is visible and \<open>startTimeRef\<close> is
  truthy (neither \<open>null\<close> nor \<open>0\<close>).
\<close>

definition truthy :: "int option \<Rightarrow> bool" where
  "truthy v = (case v of None \<Rightarrow> False | Some t \<Rightarrow> t \<noteq> 0)"

definition handleClick :: "int \<Rightarrow> FieldTest \<Rightarrow> FieldTest" where
  "handleClick now s =
     (if \<not> dotVisibleRef s \<or> \<not> truthy (startTimeRef s) then s
      else
        let reaction = now - the (startTimeRef s);
            s1 = s\<lparr>reactionTimesRef := reactionTimesRef s @ [reaction]\<rparr>;
            s2 = (clearTimer s1)\<lparr>dotVisibleRef := False\<rparr>
        in if trialRef s2 + 1 < totalTrialsRef s2
           then s2\<lparr>trialRef := trialRef s2 + 1, timerRef := Some PauseTimer\<rparr>
           else finishTest s2)"

text \<open>
  The two number inputs shown before the test starts:
  \<open>Math.max(3, Math.min(12, Number(v) || 6))\<close> and
  \<open>Math.max(800, Math.min(5000, Number(v) || 2000))\<close>, on integer input.
\<close>

definition setTotalTrials :: "int \<Rightarrow> FieldTest \<Rightarrow> FieldTest" where
  "setTotalTrials v s = s\<lparr>totalTrials := max 3 (min 12 (if v = 0 then 6 else v))\<rparr>"

definition setMaxReaction :: "int \<Rightarrow> FieldTest \<Rightarrow> FieldTest" where
  "setMaxReaction v s = s\<lparr>maxReaction := max 800 (min 5000 (if v = 0 then 2000 else v))\<rparr>"

text \<open>
  What can happen to the component. The inputs and the start button are rendered only
  while \<open>started\<close> is false. A timeout fires only while it is pending, and the miss
  timer, whose delay is the reveal's delay plus \<open>maxReaction\<close>, fires after the reveal
  set by the same \<open>showDot\<close>.
\<close>

datatype fieldEvent =
    TotalTrialsInput int
  | MaxReactionInput int
  | StartClick
  | RevealFires int
  | MissFires
  | PauseFires
  | DotClick int

fun fieldStep :: "FieldTest \<Rightarrow> fieldEvent \<Rightarrow> FieldTest" where
  "fieldStep s (TotalTrialsInput v) = (if started s then s else setTotalTrials v s)"
| "fieldStep s (MaxReactionInput v) = (if started s then s else setMaxReaction v s)"
| "fieldStep s StartClick = (if started s then s else startTest s)"
| "fieldStep s (RevealFires now) = (if 0 < revealTimers s then revealTimeout now s else s)"
| "fieldStep s MissFires =
     (if timerRef s = Some MissTimer \<and> revealTimers s = 0 then missTimeout s else s)"
| "fieldStep s PauseFires = (if timerRef s = Some PauseTimer then showDot s else s)"
| "fieldStep s (DotClick now) = handleClick now s"

definition fieldRun :: "fieldEvent list \<Rightarrow> FieldTest" where
  "fieldRun evs = foldl fieldStep initialFieldTest evs"

text \<open>The specification's side: the clamp and the mean it names.\<close>

definition clamp :: "int \<Rightarrow> int \<Rightarrow> int \<Rightarrow> int" where
  "clamp x lo hi = (if x < lo then lo else if hi < x then hi else x)"

definition mean :: "int list \<Rightarrow> real" where
  "mean xs = of_int (sum_list xs) / of_nat (length xs)"

definition specFieldScore :: "nat \<Rightarrow> real \<Rightarrow> int" where
  "specFieldScore m a = clamp (10 - int m - round ((a - 200) / 200)) 1 10"

definition specFieldAvg :: "int list \<Rightarrow> int \<Rightarrow> real" where
  "specFieldAvg xs maxReactionMs = (if xs = [] then of_int maxReactionMs else mean xs)"

text \<open>
  The result a finished test has to have handed over, and the invariant of the
  component: which timeouts can be pending in which phase, and that every trial so far
  was either answered or missed.
\<close>

definition terminalResult :: "FieldTest \<Rightarrow> FieldResult" where
  "terminalResult s =
     (let a = specFieldAvg (reactionTimesRef s) (maxReaction s)
      in \<lparr>score = specFieldScore (missesRef s) a, misses = missesRef s, avg = a,
          rts = reactionTimesRef s\<rparr>)"

definition fieldInv :: "FieldTest \<Rightarrow> bool" where
  "fieldInv s \<longleftrightarrow>
     3 \<le> totalTrials s \<and>
     (\<not> started s \<longrightarrow>
        \<not> isDone s \<and> timerRef s = None \<and> \<not> dotVisibleRef s \<and> revealTimers s = 0) \<and>
     (started s \<longrightarrow> totalTrialsRef s = totalTrials s) \<and>
     (0 < revealTimers s \<longrightarrow>
        revealTimers s = 1 \<and> \<not> dotVisibleRef s \<and> timerRef s = Some MissTimer) \<and>
     (timerRef s = Some MissTimer \<and> revealTimers s = 0 \<longrightarrow> dotVisibleRef s) \<and>
     (dotVisibleRef s \<longrightarrow> timerRef s = Some MissTimer) \<and>
     (started s \<and> \<not> isDone s \<longrightarrow>
        0 \<le> trialRef s \<and> trialRef s < totalTrialsRef s \<and>
        int (missesRef s + length (reactionTimesRef s)) = trialRef s) \<and>
     (isDone s \<longrightarrow>
        started s \<and> timerRef s = None \<and> \<not> dotVisibleRef s \<and> revealTimers s = 0 \<and>
        int (missesRef s + length (reactionTimesRef s)) = totalTrials s) \<and>
     results s = (if isDone s then [terminalResult s] else [])"

text \<open>
  Scenario A: six trials, of which the second and the fifth are missed, with reaction
  times 300, 400, 500 and 600 ms.
\<close>

definition scenarioA :: "fieldEvent list" where
  "scenarioA =
     [StartClick,
      RevealFires 1000, DotClick 1300, PauseFires,
      RevealFires 4000, MissFires,
      RevealFires 8000, DotClick 8400, PauseFires,
      RevealFires 11000, DotClick 11500, PauseFires,
      RevealFires 14000, MissFires,
      RevealFires 18000, DotClick 18600]"

text \<open>Scenario B: three trials, all missed, with a response window of 2000 ms.\<close>

definition scenarioB :: "fieldEvent list" where
  "scenarioB =
     [MaxReactionInput 2000, TotalTrialsInput 3, StartClick,
      RevealFires 1500, MissFires,
      RevealFires 5000, MissFires,
      RevealFires 9000, MissFires]"

text \<open>The first dot of a test is on the screen.\<close>

definition firstDotShown :: FieldTest where
  "firstDotShown = fieldRun [StartClick, RevealFires 1000]"

section \<open>Adaptive Plate Engine (ContrastTest.tsx)\<close>

subsection \<open>Strings\<close>

text \<open>
  Answers are strings of characters with code points below 256. \<open>trim\<close> removes the
  white space and line terminators of that range from both ends; \<open>toLowerCase\<close> maps the
  upper-case letters of that range to their lower-case forms.
\<close>

definition isSpaceChar :: "char \<Rightarrow> bool" where
  "isSpaceChar c \<longleftrightarrow> (of_char c :: nat) \<in> {9, 10, 11, 12, 13, 32, 160}"

definition trim :: "string \<Rightarrow> string" where
  "trim t = rev (dropWhile isSpaceChar (rev (dropWhile isSpaceChar t)))"

definition lowerChar :: "char \<Rightarrow> char" where
  "lowerChar c =
     (let n = (of_char c :: nat)
      in if (65 \<le> n \<and> n \<le> 90) \<or> (192 \<le> n \<and> n \<le> 222 \<and> n \<noteq> 215)
         then char_of (n + 32) else c)"

definition toLowerCase :: "string \<Rightarrow> string" where
  "toLowerCase t = map lowerChar t"

subsection \<open>Plates\<close>

text \<open>
  The tagged union \<open>Plate\<close>: a grating with its orientation, base contrast and
  frequency; a noise plate with its answer and base difficulty; a number plate with its
  answer and base contrast.
\<close>

datatype Plate =
    Grating string real real
  | Noise string real
  | Number string real

definition TOTAL_TRIALS :: nat where
  "TOTAL_TRIALS = 9"

definition MIN_CONTRAST :: real where
  "MIN_CONTRAST = 8 / 100"

definition MAX_CONTRAST :: real where
  "MAX_CONTRAST = 98 / 100"

definition basePlates :: "Plate list" where
  "basePlates =
     [Grating ''vertical'' (85 / 100) 8,
      Grating ''horizontal'' (7 / 10) 12,
      Grating ''diagonal'' (55 / 100) 10,
      Noise ''12'' 1,
      Noise ''8'' 2,
      Noise ''29'' 3,
      Number ''5'' (32 / 100),
      Number ''3'' (22 / 100),
      Number ''7'' (14 / 100)]"

text \<open>JavaScript's \<open>%\<close> on integers takes the sign of the dividend.\<close>

definition js_rem :: "int \<Rightarrow> int \<Rightarrow> int" where
  "js_rem a b = sgn a * (\<bar>a\<bar> mod \<bar>b\<bar>)"

definition hash :: "int \<Rightarrow> int" where
  "hash x = js_rem (x * 9301 + 49297) 233280"

text \<open>\<open>Number(c.toFixed(3))\<close>: the nearest multiple of one thousandth, a tie going up.\<close>

definition toFixed3 :: "real \<Rightarrow> real" where
  "toFixed3 c = of_int (Math_round (c * 1000)) / 1000"

definition levelToContrast :: "int \<Rightarrow> real \<Rightarrow> real" where
  "levelToContrast level baseContrast =
     (let factor = 2 / 10 + (of_int level / 8) * (8 / 10);
          c = max MIN_CONTRAST (min MAX_CONTRAST (baseContrast * factor))
      in toFixed3 c)"

definition levelToDifficulty :: "int \<Rightarrow> real \<Rightarrow> real" where
  "levelToDifficulty level baseDifficulty =
     (let factor = 2 / 10 + (of_int level / 8) * (8 / 10)
      in max (5 / 100) (min 1 (1 - (baseDifficulty - 1) * (15 / 100)) * factor))"

text \<open>
  \<open>choosePlateForLevel\<close> reads \<open>trialIndex\<close> and \<open>rngSeed.current\<close> from the component;
  here they are arguments. An index outside the pool reads \<open>undefined\<close>.
\<close>

definition choosePlateForLevel :: "nat \<Rightarrow> int \<Rightarrow> int \<Rightarrow> Plate option" where
  "choosePlateForLevel trialIdx seed level =
     (let idx = js_rem (int trialIdx + level + \<bar>hash seed\<bar>) (int (length basePlates))
      in if 0 \<le> idx \<and> nat idx < length basePlates then Some (basePlates ! nat idx) else None)"

text \<open>
  The memoised \<open>currentPlate\<close>: the chosen plate together with the effective contrast
  (gratings and numbers) or the difficulty factor (noise plates).
\<close>

datatype CurrentPlate =
    WithContrast Plate real
  | WithDifficultyFactor Plate real

fun plateOf :: "CurrentPlate \<Rightarrow> Plate" where
  "plateOf (WithContrast p c) = p"
| "plateOf (WithDifficultyFactor p d) = p"

definition currentPlateFor :: "nat \<Rightarrow> int \<Rightarrow> int \<Rightarrow> CurrentPlate option" where
  "currentPlateFor trialIdx seed level =
     (case choosePlateForLevel trialIdx seed level of
        None \<Rightarrow> None
      | Some (Grating ori bc fr) \<Rightarrow>
          Some (WithContrast (Grating ori bc fr) (levelToContrast level bc))
      | Some (Number a bc) \<Rightarrow>
          Some (WithContrast (Number a bc) (levelToContrast level bc))
      | Some (Noise a bd) \<Rightarrow>
          Some (WithDifficultyFactor (Noise a bd) (levelToDifficulty level bd)))"

subsection \<open>The component\<close>

datatype phase = Calibration | Testing | Done

record TrialRecord =
  plate :: CurrentPlate
  contrast :: real
  correct :: bool
  user :: string

text \<open>
  \<open>finishTimers\<close> holds, oldest first, the record lists captured by the pending 120 ms
  timeouts of \<open>handleSubmit\<close>; \<open>scores\<close> is the sequence of calls made to \<open>onResult\<close>.
\<close>

record ContrastTest =
  phase :: phase
  scale :: real
  trialIndex :: nat
  staircaseLevel :: int
  answers :: "string list"
  currentAnswer :: string
  history :: "TrialRecord list"
  showResult :: bool
  rngSeed :: int
  finishTimers :: "TrialRecord list list"
  scores :: "int list"

definition initialContrastTest :: "int \<Rightarrow> ContrastTest" where
  "initialContrastTest seed =
     \<lparr>phase = Calibration, scale = 1, trialIndex = 0, staircaseLevel = 4, answers = [],
      currentAnswer = [], history = [], showResult = False, rngSeed = seed,
      finishTimers = [], scores = []\<rparr>"

definition currentPlate :: "ContrastTest \<Rightarrow> CurrentPlate option" where
  "currentPlate s = currentPlateFor (trialIndex s) (rngSeed s) (staircaseLevel s)"

text \<open>The correctness test of \<open>handleSubmit\<close> on the trimmed answer.\<close>

fun isCorrect :: "string \<Rightarrow> Plate \<Rightarrow> bool" where
  "isCorrect ans (Grating ori bc fr) = (toLowerCase ans = toLowerCase ori)"
| "isCorrect ans (Noise a bd) = (toLowerCase ans = toLowerCase a)"
| "isCorrect ans (Number a bc) = (toLowerCase ans = toLowerCase a)"

fun recordedContrast :: "CurrentPlate \<Rightarrow> real" where
  "recordedContrast (WithContrast p c) = c"
| "recordedContrast (WithDifficultyFactor p d) = d"

text \<open>The score line of the plate engine's \<open>finishTest\<close>.\<close>

definition contrastScore :: "nat \<Rightarrow> int" where
  "contrastScore correctCount =
     max 1 (Math_round ((of_nat correctCount / of_nat TOTAL_TRIALS) * 9) + 1)"

definition contrastFinishTest :: "TrialRecord list \<Rightarrow> ContrastTest \<Rightarrow> ContrastTest" where
  "contrastFinishTest allRecords s =
     (let correctCount = length (filter correct allRecords);
          finalScore = contrastScore correctCount
      in s\<lparr>showResult := True, phase := Done, scores := scores s @ [finalScore]\<rparr>)"

text \<open>
  \<open>handleSubmit\<close>. With no current plate, building the record reads a property of
  \<open>null\<close> and throws before any state is set, so the state stays as it was.
\<close>

definition handleSubmit :: "ContrastTest \<Rightarrow> ContrastTest" where
  "handleSubmit s =
     (let ans = trim (currentAnswer s)
      in if length ans = 0 then s
         else
           case currentPlate s of
             None \<Rightarrow> s
           | Some cp \<Rightarrow>
               let ok = isCorrect ans (plateOf cp);
                   record = \<lparr>plate = cp, contrast = recordedContrast cp, correct = ok,
                             user = ans\<rparr>;
                   s1 = s\<lparr>history := history s @ [record]\<rparr>;
                   s2 = (if ok
                         then s1\<lparr>staircaseLevel := min 8 (staircaseLevel s1 + 1)\<rparr>
                         else s1\<lparr>staircaseLevel := max 0 (staircaseLevel s1 - 1)\<rparr>);
                   s3 = s2\<lparr>answers := answers s2 @ [ans], currentAnswer := [],
                          trialIndex := trialIndex s2 + 1\<rparr>
               in if trialIndex s + 1 \<ge> TOTAL_TRIALS
                  then s3\<lparr>finishTimers := finishTimers s3 @ [history s @ [record]]\<rparr>
                  else s3)"

definition startTesting :: "ContrastTest \<Rightarrow> ContrastTest" where
  "startTesting s =
     s\<lparr>phase := Testing, trialIndex := 0, history := [], answers := [],
       staircaseLevel := 4\<rparr>"

definition retry :: "ContrastTest \<Rightarrow> ContrastTest" where
  "retry s =
     s\<lparr>phase := Calibration, showResult := False, trialIndex := 0, history := [],
       answers := [], currentAnswer := []\<rparr>"

text \<open>
  Which of the three views is rendered decides which controls exist: the calibration
  view has the slider and the start button, the result view has the retry button, and
  the plate view has the answer field and the submit button.
\<close>

definition plateView :: "ContrastTest \<Rightarrow> bool" where
  "plateView s \<longleftrightarrow> phase s \<noteq> Calibration \<and> \<not> (phase s = Done \<and> showResult s)"

datatype contrastEvent =
    ScaleInput real
  | StartTestClick
  | AnswerInput string
  | Submit
  | FinishFires
  | RetryClick

fun contrastStep :: "ContrastTest \<Rightarrow> contrastEvent \<Rightarrow> ContrastTest" where
  "contrastStep s (ScaleInput v) = (if phase s = Calibration then s\<lparr>scale := v\<rparr> else s)"
| "contrastStep s StartTestClick = (if phase s = Calibration then startTesting s else s)"
| "contrastStep s (AnswerInput t) = (if plateView s then s\<lparr>currentAnswer := t\<rparr> else s)"
| "contrastStep s Submit = (if plateView s then handleSubmit s else s)"
| "contrastStep s FinishFires =
     (case finishTimers s of
        [] \<Rightarrow> s
      | allRecords # rest \<Rightarrow> contrastFinishTest allRecords (s\<lparr>finishTimers := rest\<rparr>))"
| "contrastStep s RetryClick = (if phase s = Done \<and> showResult s then retry s else s)"

definition contrastRun :: "int \<Rightarrow> contrastEvent list \<Rightarrow> ContrastTest" where
  "contrastRun seed evs = foldl contrastStep (initialContrastTest seed) evs"

text \<open>A session of the plate engine: the start, the typed and submitted answers, the timeout.\<close>

definition sessionEvents :: "string list \<Rightarrow> contrastEvent list" where
  "sessionEvents as = StartTestClick # concat (map (\<lambda>a. [AnswerInput a, Submit]) as) @ [FinishFires]"

text \<open>The specification's side of the plate engine's score.\<close>

definition specContrastScore :: "nat \<Rightarrow> int" where
  "specContrastScore correctCount = max 1 (round ((real correctCount / 9) * 9) + 1)"

text \<open>
  The state between two answers of a session, after \<open>n\<close> answers: the pending timeout
  exists exactly when the ninth answer is in.
\<close>

definition midSession :: "nat \<Rightarrow> ContrastTest \<Rightarrow> bool" where
  "midSession n s \<longleftrightarrow>
     phase s = Testing \<and> \<not> showResult s \<and> trialIndex s = n \<and> length (history s) = n \<and>
     0 \<le> staircaseLevel s \<and> scores s = [] \<and>
     finishTimers s = (if n = 9 then [history s] else [])"

text \<open>What every reachable state of the plate engine satisfies.\<close>

definition contrastInv :: "int \<Rightarrow> ContrastTest \<Rightarrow> bool" where
  "contrastInv seed s \<longleftrightarrow>
     rngSeed s = seed \<and> 0 \<le> staircaseLevel s \<and> staircaseLevel s \<le> 8"

text \<open>
  Scenario C: nine answers of which six are correct for the plates that seed 12345
  brings up.
\<close>

definition scenarioC :: "string list" where
  "scenarioC = [''29'', '' 3 '', ''Vertical'', ''x'', ''diagonal'', ''8'', ''x'', ''5'', ''x'']"

text \<open>
  Ten answers, each correct for the plate that seed 12345 brings up, the tenth typed and
  submitted while the timeout set by the ninth is still pending; then the two timeouts.
\<close>

definition tenEvents :: "contrastEvent list" where
  "tenEvents =
     [StartTestClick,
      AnswerInput ''29'', Submit, AnswerInput ''3'', Submit,
      AnswerInput ''vertical'', Submit, AnswerInput ''diagonal'', Submit,
      AnswerInput ''8'', Submit, AnswerInput ''29'', Submit,
      AnswerInput ''5'', Submit, AnswerInput ''3'', Submit,
      AnswerInput ''7'', Submit, AnswerInput ''vertical'', Submit,
      FinishFires, FinishFires]"

text \<open>
  Scenario E: four wrong answers take the level from 4 to 0, and a fifth wrong answer is
  typed. Its counterpart: four correct answers take the level to 8, and a fifth correct
  answer is typed.
\<close>

definition scenarioE :: "contrastEvent list" where
  "scenarioE =
     [StartTestClick, AnswerInput ''x'', Submit, AnswerInput ''x'', Submit,
      AnswerInput ''x'', Submit, AnswerInput ''x'', Submit, AnswerInput ''x'']"

definition scenarioTop :: "contrastEvent list" where
  "scenarioTop =
     [StartTestClick, AnswerInput ''29'', Submit, AnswerInput ''3'', Submit,
      AnswerInput ''vertical'', Submit, AnswerInput ''diagonal'', Submit, AnswerInput ''8'']"

text \<open>Two ways to reach the third trial at level 4.\<close>

definition upThenDown :: "contrastEvent list" where
  "upThenDown = [StartTestClick, AnswerInput ''29'', Submit, AnswerInput ''x'', Submit]"

definition downThenUp :: "contrastEvent list" where
  "downThenUp = [StartTestClick, AnswerInput ''x'', Submit, AnswerInput ''29'', Submit]"

section \<open>Gaze Calibration Tracker (IrisTracker)\<close>

datatype verdict = normal | abnormal

text \<open>The value handed to \<open>onComplete\<close>; its flags carry the names of the locals they are built from.\<close>

record ResultSummary =
  leftOK :: bool
  rightOK :: bool
  upOK :: bool
  downOK :: bool
  verdict :: verdict

record Detections =
  left :: nat
  right :: nat
  up :: nat
  down :: nat

record Baseline =
  lx :: real
  ly :: real
  rx :: real
  ry :: real

definition DX_THRESHOLD :: real where
  "DX_THRESHOLD = 35 / 1000"

definition DY_THRESHOLD :: real where
  "DY_THRESHOLD = 3 / 100"

definition MIN_DETECTIONS :: nat where
  "MIN_DETECTIONS = 8"

definition CALIB_DURATION_FRAMES :: nat where
  "CALIB_DURATION_FRAMES = 40"

text \<open>
  A landmark is its normalised \<open>(x, y)\<close>; a frame is \<open>results.multiFaceLandmarks\<close>, one
  landmark list for each face found, empty when no face is found.
\<close>

type_synonym landmark = "real \<times> real"

type_synonym frame = "landmark list list"

definition leftEyeIdx :: "nat list" where
  "leftEyeIdx = [33, 133, 159, 158, 157, 173, 246]"

definition rightEyeIdx :: "nat list" where
  "rightEyeIdx = [362, 263, 386, 385, 384, 398, 466]"

text \<open>
  The loop of \<open>eyeCentroid\<close>. Reading a coordinate of a landmark the list does not have
  throws; \<open>None\<close> stands for that.
\<close>

fun eyeSum :: "landmark list \<Rightarrow> nat list \<Rightarrow> real \<times> real \<Rightarrow> (real \<times> real) option" where
  "eyeSum lm [] acc = Some acc"
| "eyeSum lm (i # indices) (sx, sy) =
     (if i < length lm then eyeSum lm indices (sx + fst (lm ! i), sy + snd (lm ! i))
      else None)"

definition eyeCentroid :: "landmark list \<Rightarrow> nat list \<Rightarrow> (real \<times> real) option" where
  "eyeCentroid lm indices =
     (case eyeSum lm indices (0, 0) of
        None \<Rightarrow> None
      | Some (sx, sy) \<Rightarrow> Some (sx / of_nat (length indices), sy / of_nat (length indices)))"

text \<open>
  The refs of the component and the variables of the running effect: \<open>isMounted\<close>,
  \<open>stopTimer\<close> (whether the duration timeout is pending) and \<open>faceMesh\<close> (whether the
  frame loop feeds \<open>onResults\<close>). \<open>completions\<close> is the sequence of calls made to
  \<open>onComplete\<close>.
\<close>

record IrisTracker =
  running :: bool
  detections :: Detections
  baseline :: "Baseline option"
  calibFrames :: nat
  frameCount :: nat
  isMounted :: bool
  stopTimer :: bool
  faceMesh :: bool
  completions :: "ResultSummary list"

definition noDetections :: Detections where
  "noDetections = \<lparr>left = 0, right = 0, up = 0, down = 0\<rparr>"

definition initialIrisTracker :: IrisTracker where
  "initialIrisTracker =
     \<lparr>running = False, detections = noDetections, baseline = None, calibFrames = 0,
      frameCount = 0, isMounted = False, stopTimer = False, faceMesh = False,
      completions = []\<rparr>"

text \<open>The running average of the calibration branch, field by field.\<close>

definition runningAverage :: "Baseline \<Rightarrow> nat \<Rightarrow> real \<times> real \<Rightarrow> real \<times> real \<Rightarrow> Baseline" where
  "runningAverage b n leftC rightC =
     \<lparr>lx = (lx b * of_nat n + fst leftC) / of_nat (n + 1),
      ly = (ly b * of_nat n + snd leftC) / of_nat (n + 1),
      rx = (rx b * of_nat n + fst rightC) / of_nat (n + 1),
      ry = (ry b * of_nat n + snd rightC) / of_nat (n + 1)\<rparr>"

text \<open>The four threshold tests of the tracking branch.\<close>

definition countDetections :: "real \<Rightarrow> real \<Rightarrow> Detections \<Rightarrow> Detections" where
  "countDetections dx dy d =
     (let d1 = (if dx \<le> - DX_THRESHOLD then d\<lparr>left := left d + 1\<rparr> else d);
          d2 = (if dx \<ge> DX_THRESHOLD then d1\<lparr>right := right d1 + 1\<rparr> else d1);
          d3 = (if dy \<le> - DY_THRESHOLD then d2\<lparr>up := up d2 + 1\<rparr> else d2)
      in if dy \<ge> DY_THRESHOLD then d3\<lparr>down := down d3 + 1\<rparr> else d3)"

text \<open>
  \<open>onResults\<close>, without the drawing. An exception thrown by \<open>eyeCentroid\<close> leaves the
  callback after \<open>frameCount\<close> was counted up and before anything else is written.
\<close>

definition onResults :: "frame \<Rightarrow> IrisTracker \<Rightarrow> IrisTracker" where
  "onResults multiFaceLandmarks s =
     (if \<not> isMounted s then s
      else
        let s1 = s\<lparr>frameCount := frameCount s + 1\<rparr>
        in case multiFaceLandmarks of
             [] \<Rightarrow> s1
           | lm # others \<Rightarrow>
               (case (eyeCentroid lm leftEyeIdx, eyeCentroid lm rightEyeIdx) of
                  (Some leftC, Some rightC) \<Rightarrow>
                    if baseline s1 = None \<and> calibFrames s1 < CALIB_DURATION_FRAMES
                    then
                      let b = (case baseline s1 of
                                 None \<Rightarrow> \<lparr>lx = fst leftC, ly = snd leftC,
                                           rx = fst rightC, ry = snd rightC\<rparr>
                               | Some b0 \<Rightarrow> b0)
                      in s1\<lparr>baseline := Some (runningAverage b (calibFrames s1) leftC rightC),
                            calibFrames := calibFrames s1 + 1\<rparr>
                    else
                      let b = (case baseline s1 of
                                 None \<Rightarrow> \<lparr>lx = fst leftC, ly = snd leftC,
                                           rx = fst rightC, ry = snd rightC\<rparr>
                               | Some b0 \<Rightarrow> b0);
                          ldx = fst leftC - lx b;
                          ldy = snd leftC - ly b;
                          rdx = fst rightC - rx b;
                          rdy = snd rightC - ry b;
                          dx = (ldx + rdx) / 2;
                          dy = (ldy + rdy) / 2
                      in s1\<lparr>baseline := Some b,
                            detections := countDetections dx dy (detections s1)\<rparr>
                | _ \<Rightarrow> s1))"

text \<open>The evaluation shared, line for line, by \<open>finishAndCleanup\<close> and the stop button.\<close>

definition evaluate :: "Detections \<Rightarrow> ResultSummary" where
  "evaluate d =
     (let leftOK = left d \<ge> MIN_DETECTIONS;
          rightOK = right d \<ge> MIN_DETECTIONS;
          upOK = up d \<ge> MIN_DETECTIONS;
          downOK = down d \<ge> MIN_DETECTIONS;
          allOK = leftOK \<and> rightOK \<and> upOK \<and> downOK
      in \<lparr>leftOK = leftOK, rightOK = rightOK, upOK = upOK, downOK = downOK,
          verdict = (if allOK then normal else abnormal)\<rparr>)"

definition finishAndCleanup :: "IrisTracker \<Rightarrow> IrisTracker" where
  "finishAndCleanup s =
     (let s1 = s\<lparr>running := False\<rparr>
      in s1\<lparr>completions := completions s1 @ [evaluate (detections s1)]\<rparr>)"

definition stopHandler :: "IrisTracker \<Rightarrow> IrisTracker" where
  "stopHandler s =
     (let s1 = s\<lparr>running := False\<rparr>
      in s1\<lparr>completions := completions s1 @ [evaluate (detections s1)]\<rparr>)"

text \<open>
  The cleanup function of the effect, run when \<open>running\<close> changes: it unmounts the
  callbacks, clears the duration timeout and closes the face mesh.
\<close>

definition cleanup :: "IrisTracker \<Rightarrow> IrisTracker" where
  "cleanup s = s\<lparr>isMounted := False, stopTimer := False, faceMesh := False\<rparr>"

text \<open>
  How \<open>start\<close> ends: it reaches the end, it returns because the face mesh library is
  missing, or it catches an error of the script loader or the camera.
\<close>

datatype startOutcome = Started | NoFaceMesh | AcquisitionError

definition startHandler :: "IrisTracker \<Rightarrow> IrisTracker" where
  "startHandler s =
     s\<lparr>detections := noDetections, baseline := None, frameCount := 0, running := True\<rparr>"

fun start :: "startOutcome \<Rightarrow> IrisTracker \<Rightarrow> IrisTracker" where
  "start Started s =
     s\<lparr>faceMesh := True, baseline := None, calibFrames := 0, frameCount := 0,
       detections := noDetections, stopTimer := True, running := True\<rparr>"
| "start NoFaceMesh s = s"
| "start AcquisitionError s = cleanup (s\<lparr>running := False\<rparr>)"

text \<open>
  What can happen to the component. The start button is disabled while \<open>running\<close> and
  the stop button while not \<open>running\<close>. Setting \<open>running\<close> re-renders the component and
  re-runs the effect: the cleanup of the previous run and then, after the start button,
  the body with a fresh \<open>isMounted\<close> and the call of \<open>start\<close>, which is taken as one
  step. The effect is taken to re-run only when \<open>running\<close> changes.
\<close>

datatype gazeEvent =
    StartButton startOutcome
  | FrameArrives frame
  | DurationElapsed
  | StopButton

fun gazeStep :: "IrisTracker \<Rightarrow> gazeEvent \<Rightarrow> IrisTracker" where
  "gazeStep s (StartButton outcome) =
     (if running s then s
      else start outcome ((cleanup (startHandler s))\<lparr>isMounted := True\<rparr>))"
| "gazeStep s (FrameArrives f) = (if faceMesh s then onResults f s else s)"
| "gazeStep s DurationElapsed = (if stopTimer s then cleanup (finishAndCleanup s) else s)"
| "gazeStep s StopButton = (if running s then cleanup (stopHandler s) else s)"

definition gazeRun :: "gazeEvent list \<Rightarrow> IrisTracker" where
  "gazeRun evs = foldl gazeStep initialIrisTracker evs"

text \<open>A frame with one face whose landmarks all lie at the same point.\<close>

definition faceAt :: "real \<Rightarrow> real \<Rightarrow> frame" where
  "faceAt x y = [replicate 478 (x, y)]"

text \<open>A tracker about to end with the counters of scenario D.\<close>

definition scenarioD :: IrisTracker where
  "scenarioD =
     \<lparr>running = True, detections = \<lparr>left = 10, right = 3, up = 9, down = 8\<rparr>,
      baseline = Some \<lparr>lx = 4 / 10, ly = 5 / 10, rx = 6 / 10, ry = 5 / 10\<rparr>,
      calibFrames = 1, frameCount = 300, isMounted = True, stopTimer = True,
      faceMesh = True, completions = []\<rparr>"

text \<open>
  The attributes of the two buttons: \<open>disabled={running}\<close> on the start button and
  \<open>disabled={!running}\<close> on the stop button.
\<close>

definition startDisabled :: "IrisTracker \<Rightarrow> bool" where
  "startDisabled s \<longleftrightarrow> running s"


section \<open>Properties of the Stimulus Trial Engine\<close>

lemma foldl_plus_sum_list: "foldl (+) a xs = a + sum_list (xs::int list)"
  by (induction xs arbitrary: a) simp_all

lemma Math_round_round: "Math_round x = round x"
  by (simp add: Math_round_def round_def)

lemma fieldScore_spec: "fieldScore (int m) a = specFieldScore m a"
  by (simp add: fieldScore_def specFieldScore_def clamp_def Math_round_round Let_def)

lemma finishTest_eq:
  "finishTest s =
     s\<lparr>timerRef := None, isDone := True, results := results s @ [terminalResult s]\<rparr>"
  by (simp add: finishTest_def clearTimer_def Let_def fieldScore_spec specFieldAvg_def
      mean_def foldl_plus_sum_list terminalResult_def)

lemma showDot_eq:
  "showDot s =
     s\<lparr>timerRef := Some MissTimer, dotVisibleRef := False,
       revealTimers := revealTimers s + 1\<rparr>"
  by (simp add: showDot_def clearTimer_def)

lemma handleClick_unfold:
  assumes "dotVisibleRef s" and "truthy (startTimeRef s)"
  shows "handleClick now s =
     (let s2 = s\<lparr>reactionTimesRef := reactionTimesRef s @ [now - the (startTimeRef s)],
                  timerRef := None, dotVisibleRef := False\<rparr>
      in if trialRef s2 + 1 < totalTrialsRef s2
         then s2\<lparr>trialRef := trialRef s2 + 1, timerRef := Some PauseTimer\<rparr>
         else finishTest s2)"
  using assms by (simp add: handleClick_def Let_def clearTimer_def)

lemma fieldInv_missTimeout:
  assumes "fieldInv s" and "timerRef s = Some MissTimer" and "revealTimers s = 0"
  shows "fieldInv (missTimeout s)"
  using assms
  by (auto simp add: fieldInv_def missTimeout_def Let_def finishTest_eq showDot_eq
      terminalResult_def)

lemma fieldInv_handleClick:
  assumes "fieldInv s"
  shows "fieldInv (handleClick now s)"
  using assms
  by (auto simp add: fieldInv_def handleClick_def clearTimer_def Let_def finishTest_eq
      terminalResult_def)

lemma fieldInv_step: "fieldInv s \<Longrightarrow> fieldInv (fieldStep s e)"
proof (cases e)
  case (TotalTrialsInput v)
  then show "fieldInv s \<Longrightarrow> ?thesis"
    by (auto simp add: fieldInv_def setTotalTrials_def terminalResult_def)
next
  case (MaxReactionInput v)
  then show "fieldInv s \<Longrightarrow> ?thesis"
    by (auto simp add: fieldInv_def setMaxReaction_def terminalResult_def)
next
  case StartClick
  then show "fieldInv s \<Longrightarrow> ?thesis"
    by (auto simp add: fieldInv_def startTest_def showDot_def clearTimer_def)
next
  case (RevealFires n)
  then show "fieldInv s \<Longrightarrow> ?thesis"
    by (auto simp add: fieldInv_def revealTimeout_def terminalResult_def)
next
  case MissFires
  then show "fieldInv s \<Longrightarrow> ?thesis" by (simp add: fieldInv_missTimeout)
next
  case PauseFires
  then show "fieldInv s \<Longrightarrow> ?thesis"
    by (auto simp add: fieldInv_def showDot_eq terminalResult_def)
next
  case (DotClick n)
  then show "fieldInv s \<Longrightarrow> ?thesis" by (simp add: fieldInv_handleClick)
qed

lemma fieldInv_foldl: "fieldInv s \<Longrightarrow> fieldInv (foldl fieldStep s evs)"
  by (induction evs arbitrary: s) (simp_all add: fieldInv_step)

lemma fieldInv_run: "fieldInv (fieldRun evs)"
  unfolding fieldRun_def
  by (intro fieldInv_foldl) (simp add: fieldInv_def initialFieldTest_def)

lemmas fieldEval = fieldRun_def initialFieldTest_def startTest_def showDot_def clearTimer_def
  revealTimeout_def handleClick_def truthy_def missTimeout_def finishTest_def Let_def
  fieldScore_def Math_round_def setMaxReaction_def setTotalTrials_def

text \<open>
  C1. A finished field test has called \<open>onResult\<close> once, with the misses and the
  reaction times it recorded, with \<open>avg\<close> the mean of those reaction times, or
  \<open>maxReaction\<close> when there is none, and with the score
  \<open>clamp(10 - misses - round((avg - 200) / 200), 1, 10)\<close>. Every trial of the test was
  either answered or missed, so no reaction time means that all trials were missed.
  Before the test is finished \<open>onResult\<close> has not been called.
\<close>

theorem field_terminal_score:
  "(let s = fieldRun evs;
        a = specFieldAvg (reactionTimesRef s) (maxReaction s)
    in (isDone s \<longrightarrow>
          results s = [\<lparr>score = specFieldScore (missesRef s) a, misses = missesRef s,
                        avg = a, rts = reactionTimesRef s\<rparr>] \<and>
          int (missesRef s) + int (length (reactionTimesRef s)) = totalTrials s) \<and>
       (\<not> isDone s \<longrightarrow> results s = []))"
  using fieldInv_run [of evs]
  by (simp add: fieldInv_def terminalResult_def Let_def)

theorem field_terminal_score_witness:
  "isDone (fieldRun scenarioA) \<and>
   results (fieldRun scenarioA) =
     [\<lparr>score = 7, misses = 2, avg = 450, rts = [300, 400, 500, 600]\<rparr>] \<and>
   totalTrials (fieldRun scenarioA) = 6 \<and>
   \<not> isDone (fieldRun (butlast scenarioA)) \<and>
   results (fieldRun (butlast scenarioA)) = []"
proof -
  have a: "isDone (fieldRun scenarioA)" "missesRef (fieldRun scenarioA) = 2"
    "reactionTimesRef (fieldRun scenarioA) = [300, 400, 500, 600]"
    "maxReaction (fieldRun scenarioA) = 2000"
    by (simp_all add: scenarioA_def fieldEval)
  have b: "\<not> isDone (fieldRun (butlast scenarioA))"
    by (simp add: scenarioA_def fieldEval)
  have c: "specFieldAvg [300, 400, 500, 600] 2000 = 450" "specFieldScore 2 450 = 7"
    by (simp_all add: specFieldAvg_def mean_def specFieldScore_def clamp_def round_def)
  show ?thesis
    using field_terminal_score [of scenarioA] field_terminal_score [of "butlast scenarioA"]
      a b c
    by (simp add: Let_def)
qed

lemma scenarioB_result:
  "results (fieldRun scenarioB) = [\<lparr>score = 1, misses = 3, avg = 2000, rts = []\<rparr>]"
  by (simp add: scenarioB_def fieldEval)

text \<open>
  C7. The score of the field test lies between 1 and 10 and does not grow when the
  misses grow or when the average grows.
\<close>

theorem field_score_bounded_antitone:
  "1 \<le> fieldScore m a \<and> fieldScore m a \<le> 10 \<and>
   (m \<le> m' \<longrightarrow> fieldScore m' a \<le> fieldScore m a) \<and>
   (a \<le> a' \<longrightarrow> fieldScore m a' \<le> fieldScore m a)"
proof -
  have "a \<le> a' \<Longrightarrow> round ((a - 200) / 200) \<le> round ((a' - 200) / 200)"
    by (intro round_mono) (simp add: divide_right_mono)
  then show ?thesis
    by (auto simp add: fieldScore_def Math_round_round Let_def)
qed

theorem field_score_bounded_antitone_witness:
  "(2::int) \<le> 3 \<and> (450::real) \<le> 700 \<and>
   fieldScore 3 450 \<le> fieldScore 2 450 \<and> fieldScore 2 700 \<le> fieldScore 2 450 \<and>
   1 \<le> fieldScore 2 450 \<and> fieldScore 2 450 \<le> 10"
  using field_score_bounded_antitone [of 2 450 3 700]
  by simp

lemma fieldScore_values:
  "fieldScore 2 450 = 7" "fieldScore 3 450 = 6" "fieldScore 2 700 = 5"
  "fieldScore 0 0 = 10" "fieldScore 12 5000 = 1"
  by (simp_all add: fieldScore_def Math_round_def)

text \<open>
  C6. Once the miss timer has fired, a click changes nothing; and once a click on the
  visible dot is taken, the miss timer of that trial is no longer pending, so its
  expiry changes nothing and counts no miss.
\<close>

theorem late_response_ignored:
  "handleClick now (missTimeout s) = missTimeout s \<and>
   (dotVisibleRef s \<and> truthy (startTimeRef s) \<longrightarrow>
      fieldStep (handleClick now s) MissFires = handleClick now s \<and>
      missesRef (handleClick now s) = missesRef s)"
proof -
  have "\<not> dotVisibleRef (missTimeout s)"
    by (simp add: missTimeout_def Let_def showDot_eq finishTest_eq)
  then have a: "handleClick now (missTimeout s) = missTimeout s"
    by (simp add: handleClick_def)
  have b: "timerRef (handleClick now s) \<noteq> Some MissTimer"
    "missesRef (handleClick now s) = missesRef s"
    if "dotVisibleRef s" "truthy (startTimeRef s)"
    using that by (simp_all add: handleClick_unfold Let_def finishTest_eq)
  show ?thesis using a b by simp
qed

theorem late_response_ignored_witness:
  "dotVisibleRef firstDotShown \<and> truthy (startTimeRef firstDotShown) \<and>
   fieldStep firstDotShown MissFires = missTimeout firstDotShown \<and>
   handleClick 9000 (missTimeout firstDotShown) = missTimeout firstDotShown \<and>
   reactionTimesRef (missTimeout firstDotShown) = [] \<and>
   missesRef (missTimeout firstDotShown) = 1 \<and>
   reactionTimesRef (handleClick 1300 firstDotShown) = [300] \<and>
   fieldStep (handleClick 1300 firstDotShown) MissFires = handleClick 1300 firstDotShown \<and>
   missesRef (handleClick 1300 firstDotShown) = 0"
proof -
  have a: "dotVisibleRef firstDotShown" "truthy (startTimeRef firstDotShown)"
    "timerRef firstDotShown = Some MissTimer" "revealTimers firstDotShown = 0"
    "missesRef firstDotShown = 0"
    by (simp_all add: firstDotShown_def fieldEval)
  have b: "reactionTimesRef (missTimeout firstDotShown) = []"
    "missesRef (missTimeout firstDotShown) = 1"
    "reactionTimesRef (handleClick 1300 firstDotShown) = [300]"
    by (simp_all add: firstDotShown_def fieldEval)
  show ?thesis
    using late_response_ignored [of 9000 firstDotShown]
      late_response_ignored [of 1300 firstDotShown] a b
    by simp
qed

section \<open>Properties of the Adaptive Plate Engine\<close>

lemma contrastScore_spec: "contrastScore c = specContrastScore c"
  by (simp add: contrastScore_def specContrastScore_def Math_round_round TOTAL_TRIALS_def)

lemma contrastScore_succ: "contrastScore c = int c + 1"
  by (simp add: contrastScore_def Math_round_def TOTAL_TRIALS_def)

lemma choosePlate_Some:
  assumes "0 \<le> level"
  shows "\<exists>p. choosePlateForLevel t seed level = Some p \<and> p \<in> set basePlates"
proof -
  have len: "length basePlates = 9" by (simp add: basePlates_def)
  define k where "k = int t + level + \<bar>hash seed\<bar>"
  have k0: "0 \<le> k" using assms by (simp add: k_def)
  have r: "js_rem k 9 = k mod 9" using k0 by (cases "k = 0") (simp_all add: js_rem_def)
  have b: "0 \<le> k mod 9" "nat (k mod 9) < 9" by simp_all
  have "choosePlateForLevel t seed level = Some (basePlates ! nat (k mod 9))"
    using b r by (simp add: choosePlateForLevel_def len k_def [symmetric] Let_def)
  moreover have "basePlates ! nat (k mod 9) \<in> set basePlates"
    using b len by (metis nth_mem)
  ultimately show ?thesis by blast
qed

lemma currentPlate_Some:
  assumes "0 \<le> staircaseLevel s"
  shows "\<exists>cp. currentPlate s = Some cp"
proof -
  obtain p where "choosePlateForLevel (trialIndex s) (rngSeed s) (staircaseLevel s) = Some p"
    using choosePlate_Some [OF assms] by blast
  then show ?thesis
    by (cases p) (simp_all add: currentPlate_def currentPlateFor_def)
qed

lemma handleSubmit_blank: "trim (currentAnswer s) = [] \<Longrightarrow> handleSubmit s = s"
  by (simp add: handleSubmit_def)

lemma handleSubmit_fields:
  assumes "trim (currentAnswer s) \<noteq> []" and "currentPlate s = Some cp"
  shows "phase (handleSubmit s) = phase s"
    and "showResult (handleSubmit s) = showResult s"
    and "rngSeed (handleSubmit s) = rngSeed s"
    and "scores (handleSubmit s) = scores s"
    and "trialIndex (handleSubmit s) = trialIndex s + 1"
    and "staircaseLevel (handleSubmit s) =
           (if isCorrect (trim (currentAnswer s)) (plateOf cp)
            then min 8 (staircaseLevel s + 1) else max 0 (staircaseLevel s - 1))"
    and "length (history (handleSubmit s)) = length (history s) + 1"
    and "finishTimers (handleSubmit s) =
           (if TOTAL_TRIALS \<le> trialIndex s + 1
            then finishTimers s @ [history (handleSubmit s)] else finishTimers s)"
  using assms by (simp_all add: handleSubmit_def Let_def)

lemma midSession_start: "midSession 0 (contrastStep (initialContrastTest seed) StartTestClick)"
  by (simp add: midSession_def initialContrastTest_def startTesting_def)

lemma midSession_answer:
  assumes m: "midSession n s" and n: "n < 9" and a: "trim a \<noteq> []"
  shows "midSession (Suc n) (contrastStep (contrastStep s (AnswerInput a)) Submit)"
proof -
  define t where "t = s\<lparr>currentAnswer := a\<rparr>"
  have pv: "plateView s" using m by (simp add: midSession_def plateView_def)
  have t1: "contrastStep s (AnswerInput a) = t" using pv by (simp add: t_def)
  have pvt: "plateView t" using pv by (simp add: t_def plateView_def)
  have nb: "trim (currentAnswer t) \<noteq> []" using a by (simp add: t_def)
  have "0 \<le> staircaseLevel t" using m by (simp add: t_def midSession_def)
  then obtain cp where cp: "currentPlate t = Some cp" using currentPlate_Some by blast
  have tf: "phase t = Testing" "\<not> showResult t" "trialIndex t = n" "length (history t) = n"
    "0 \<le> staircaseLevel t" "scores t = []" "finishTimers t = []"
    using m n by (simp_all add: t_def midSession_def)
  show ?thesis
    unfolding t1 using pvt tf n handleSubmit_fields [OF nb cp]
    by (auto simp add: midSession_def TOTAL_TRIALS_def)
qed

lemma midSession_answers:
  "midSession n s \<Longrightarrow> n + length as \<le> 9 \<Longrightarrow> \<forall>a \<in> set as. trim a \<noteq> [] \<Longrightarrow>
     midSession (n + length as)
       (foldl contrastStep s (concat (map (\<lambda>a. [AnswerInput a, Submit]) as)))"
proof (induction as arbitrary: n s)
  case Nil
  then show ?case by simp
next
  case (Cons a as)
  have "midSession (Suc n) (contrastStep (contrastStep s (AnswerInput a)) Submit)"
    using Cons.prems by (intro midSession_answer) simp_all
  then have "midSession (Suc n + length as)
      (foldl contrastStep (contrastStep (contrastStep s (AnswerInput a)) Submit)
         (concat (map (\<lambda>a. [AnswerInput a, Submit]) as)))"
    using Cons.prems by (intro Cons.IH) simp_all
  then show ?case by simp
qed

lemma midSession_finish:
  assumes "midSession 9 s"
  shows "scores (contrastStep s FinishFires) = [contrastScore (length (filter correct (history s)))]"
    and "history (contrastStep s FinishFires) = history s"
    and "phase (contrastStep s FinishFires) = Done"
  using assms by (simp_all add: midSession_def contrastFinishTest_def Let_def)

lemma session_run:
  assumes "length as = 9" and "\<forall>a \<in> set as. trim a \<noteq> []"
  shows "\<exists>s. midSession 9 s \<and> contrastRun seed (sessionEvents as) = contrastStep s FinishFires"
proof -
  let ?s = "foldl contrastStep (contrastStep (initialContrastTest seed) StartTestClick)
              (concat (map (\<lambda>a. [AnswerInput a, Submit]) as))"
  have "midSession (0 + length as) ?s"
    using assms by (intro midSession_answers midSession_start) simp_all
  then have "midSession 9 ?s" using assms by simp
  moreover have "contrastRun seed (sessionEvents as) = contrastStep ?s FinishFires"
    by (simp add: contrastRun_def sessionEvents_def)
  ultimately show ?thesis by blast
qed

lemma session_score:
  assumes "length as = 9" and "\<forall>a \<in> set as. trim a \<noteq> []"
  shows "length (history (contrastRun seed (sessionEvents as))) = 9 \<and>
         scores (contrastRun seed (sessionEvents as)) =
           [contrastScore (length (filter correct (history (contrastRun seed (sessionEvents as)))))]"
proof -
  obtain s where s: "midSession 9 s"
      "contrastRun seed (sessionEvents as) = contrastStep s FinishFires"
    using session_run [OF assms] by blast
  have "length (history s) = 9" using s(1) by (simp add: midSession_def)
  then show ?thesis
    using midSession_finish [OF s(1)] by (simp add: s(2))
qed

text \<open>
  Called with nine records, the plate engine's \<open>finishTest\<close> hands
  \<open>max(1, round((correctCount / 9) * 9) + 1)\<close> to \<open>onResult\<close>, for the number of correct
  records, and that score lies between 1 and 10. A session in which nine non-empty
  answers are typed and submitted one after the other, and the timeout fires before
  anything else is submitted, ends with exactly that one call, on the nine records of
  its history. The score does not fall when the number of correct answers grows.
\<close>

lemma nine_answers_score:
  assumes "length as = 9" and "\<forall>a \<in> set as. trim a \<noteq> []"
  shows "(let s = contrastRun seed (sessionEvents as);
              correctCount = length (filter correct (history s))
          in length (history s) = 9 \<and>
             scores s = [specContrastScore correctCount] \<and>
             1 \<le> specContrastScore correctCount \<and> specContrastScore correctCount \<le> 10) \<and>
         (\<forall>allRecords t. length allRecords = 9 \<longrightarrow>
            scores (contrastFinishTest allRecords t) =
              scores t @ [specContrastScore (length (filter correct allRecords))] \<and>
            1 \<le> specContrastScore (length (filter correct allRecords)) \<and>
            specContrastScore (length (filter correct allRecords)) \<le> 10) \<and>
         (\<forall>c c'. c \<le> c' \<longrightarrow> contrastScore c \<le> contrastScore c')"
proof -
  let ?s = "contrastRun seed (sessionEvents as)"
  let ?c = "length (filter correct (history ?s))"
  have range: "1 \<le> specContrastScore (length (filter correct rs)) \<and>
      specContrastScore (length (filter correct rs)) \<le> 10"
    if "length rs = 9" for rs :: "TrialRecord list"
  proof -
    have "length (filter correct rs) \<le> length rs" by simp
    then have "length (filter correct rs) \<le> 9" using that by simp
    then show ?thesis
      by (simp add: contrastScore_spec [symmetric] contrastScore_succ)
  qed
  have h: "length (history ?s) = 9" "scores ?s = [contrastScore ?c]"
    using session_score [OF assms, of seed] by simp_all
  have fin: "scores (contrastFinishTest rs t) =
      scores t @ [specContrastScore (length (filter correct rs))]" for rs t
    by (simp add: contrastFinishTest_def Let_def contrastScore_spec)
  have mono: "\<forall>c c'. c \<le> c' \<longrightarrow> contrastScore c \<le> contrastScore c'"
    by (simp add: contrastScore_succ)
  show ?thesis
    using h range [OF h(1)] range fin mono
    by (simp add: Let_def contrastScore_spec [symmetric])
qed

lemma scenarioC_score:
  "length scenarioC = 9 \<and>
   map trim scenarioC = [''29'', ''3'', ''Vertical'', ''x'', ''diagonal'', ''8'', ''x'', ''5'', ''x''] \<and>
   map correct (history (contrastRun 12345 (sessionEvents scenarioC))) =
     [True, True, True, False, True, True, False, True, False] \<and>
   scores (contrastRun 12345 (sessionEvents scenarioC)) = [7] \<and>
   specContrastScore 6 = 7"
proof -
  have h1: "length scenarioC = 9"
    by code_simp
  have h2: "\<forall>a \<in> set scenarioC. trim a \<noteq> []"
    by code_simp
  have h3: "map trim scenarioC =
      [''29'', ''3'', ''Vertical'', ''x'', ''diagonal'', ''8'', ''x'', ''5'', ''x'']"
    by code_simp
  have c: "map correct (history (contrastRun 12345 (sessionEvents scenarioC))) =
     [True, True, True, False, True, True, False, True, False]"
    by code_simp
  have "length (filter correct (history (contrastRun 12345 (sessionEvents scenarioC)))) =
          length (filter id (map correct (history (contrastRun 12345 (sessionEvents scenarioC)))))"
    by (simp add: filter_map comp_def)
  then have n: "length (filter correct (history (contrastRun 12345 (sessionEvents scenarioC)))) = 6"
    by (simp add: c)
  show ?thesis
    using nine_answers_score [OF h1 h2, of 12345] h1 h3 c n
    by (simp add: Let_def specContrastScore_def)
qed

text \<open>
  C2. The plate view stays on the screen until the timeout of the ninth answer fires, and
  \<open>handleSubmit\<close> accepts a tenth answer there and sets a second timeout. With ten
  correct answers \<open>onResult\<close> is called twice: with 10 for the nine records and with 11
  for the ten, a score above the range 1 to 10 and a correct count above nine.
\<close>

theorem tenth_answer_scores_eleven:
  "scores (contrastRun 12345 tenEvents) = [10, 11] \<and>
   map correct (history (contrastRun 12345 tenEvents)) = replicate 10 True \<and>
   trialIndex (contrastRun 12345 tenEvents) = 10 \<and>
   specContrastScore 9 = 10"
proof -
  have "scores (contrastRun 12345 tenEvents) = [10, 11]"
    by code_simp
  moreover have "map correct (history (contrastRun 12345 tenEvents)) = replicate 10 True"
    by code_simp
  moreover have "trialIndex (contrastRun 12345 tenEvents) = 10"
    by code_simp
  moreover have "specContrastScore 9 = 10"
    by (simp add: specContrastScore_def)
  ultimately show ?thesis by simp
qed

text \<open>The staircase level stays between 0 and 8, and the seed stays what it was.\<close>

lemma handleSubmit_level:
  assumes "0 \<le> staircaseLevel s" and "staircaseLevel s \<le> 8"
  shows "0 \<le> staircaseLevel (handleSubmit s) \<and> staircaseLevel (handleSubmit s) \<le> 8"
proof (cases "trim (currentAnswer s) = []")
  case True
  then show ?thesis using assms by (simp add: handleSubmit_blank)
next
  case False
  obtain cp where cp: "currentPlate s = Some cp"
    using currentPlate_Some [OF assms(1)] by blast
  show ?thesis
    using assms by (simp add: handleSubmit_fields(6) [OF False cp])
qed

lemma handleSubmit_seed: "rngSeed (handleSubmit s) = rngSeed s"
  by (simp add: handleSubmit_def Let_def split: option.splits)

lemma contrastInv_step:
  assumes "contrastInv seed s"
  shows "contrastInv seed (contrastStep s e)"
proof (cases e)
  case (ScaleInput v)
  then show ?thesis using assms by (simp add: contrastInv_def)
next
  case StartTestClick
  then show ?thesis using assms by (simp add: contrastInv_def startTesting_def)
next
  case (AnswerInput t)
  then show ?thesis using assms by (simp add: contrastInv_def)
next
  case Submit
  then show ?thesis
    using assms handleSubmit_level [of s] by (simp add: contrastInv_def handleSubmit_seed)
next
  case FinishFires
  then show ?thesis
    using assms by (simp add: contrastInv_def contrastFinishTest_def Let_def split: list.splits)
next
  case RetryClick
  then show ?thesis using assms by (simp add: contrastInv_def retry_def)
qed

lemma contrastInv_foldl: "contrastInv seed s \<Longrightarrow> contrastInv seed (foldl contrastStep s evs)"
  by (induction evs arbitrary: s) (simp_all add: contrastInv_step)

lemma contrastInv_run: "contrastInv seed (contrastRun seed evs)"
  unfolding contrastRun_def
  by (intro contrastInv_foldl) (simp add: contrastInv_def initialContrastTest_def)

text \<open>
  C5. In every state the component reaches, the staircase level lies between 0 and 8,
  and submitting a non-empty answer there sets it to \<open>min(8, level + 1)\<close> when the
  answer is correct for the plate shown and to \<open>max(0, level - 1)\<close> when it is not; so
  a correct answer at level 8 and an incorrect one at level 0 leave it where it is.
\<close>

theorem staircase_level_clamped:
  "(let s = contrastRun seed evs
    in 0 \<le> staircaseLevel s \<and> staircaseLevel s \<le> 8 \<and>
       (trim (currentAnswer s) \<noteq> [] \<longrightarrow>
          (\<exists>cp. currentPlate s = Some cp \<and>
             (isCorrect (trim (currentAnswer s)) (plateOf cp) \<longrightarrow>
                staircaseLevel (handleSubmit s) = min 8 (staircaseLevel s + 1) \<and>
                (staircaseLevel s = 8 \<longrightarrow> staircaseLevel (handleSubmit s) = 8)) \<and>
             (\<not> isCorrect (trim (currentAnswer s)) (plateOf cp) \<longrightarrow>
                staircaseLevel (handleSubmit s) = max 0 (staircaseLevel s - 1) \<and>
                (staircaseLevel s = 0 \<longrightarrow> staircaseLevel (handleSubmit s) = 0)))))"
proof -
  let ?s = "contrastRun seed evs"
  have lv: "0 \<le> staircaseLevel ?s" "staircaseLevel ?s \<le> 8"
    using contrastInv_run [of seed evs] by (simp_all add: contrastInv_def)
  obtain cp where cp: "currentPlate ?s = Some cp"
    using currentPlate_Some [OF lv(1)] by blast
  have "staircaseLevel (handleSubmit ?s) =
          (if isCorrect (trim (currentAnswer ?s)) (plateOf cp)
           then min 8 (staircaseLevel ?s + 1) else max 0 (staircaseLevel ?s - 1))"
    if "trim (currentAnswer ?s) \<noteq> []"
    using handleSubmit_fields(6) [OF that cp] .
  then show ?thesis
    using lv cp by (simp add: Let_def)
qed

text \<open>
  C8. A submission whose answer is empty after trimming leaves the whole component as
  it was: trial index, staircase level, history, answers, pending timeout and the calls
  of \<open>onResult\<close>.
\<close>

theorem empty_submission_rejected:
  "trim (currentAnswer s) = [] \<Longrightarrow> handleSubmit s = s \<and> contrastStep s Submit = s"
  by (simp add: handleSubmit_def)

text \<open>
  C10. The plate shown is the pool entry picked by the trial index, the staircase
  level and the seed: whatever two sessions with the same seed went through, at equal
  trial index and level they show the same plate.
\<close>

theorem plate_selection_deterministic:
  "(let s = contrastRun seed evs
    in currentPlate s = currentPlateFor (trialIndex s) seed (staircaseLevel s) \<and>
       (\<exists>p \<in> set basePlates.
          choosePlateForLevel (trialIndex s) seed (staircaseLevel s) = Some p \<and>
          map_option plateOf (currentPlate s) = Some p)) \<and>
   (trialIndex (contrastRun seed evs) = trialIndex (contrastRun seed evs') \<and>
    staircaseLevel (contrastRun seed evs) = staircaseLevel (contrastRun seed evs') \<longrightarrow>
      currentPlate (contrastRun seed evs) = currentPlate (contrastRun seed evs'))"
proof -
  have seed: "rngSeed (contrastRun seed es) = seed" for es
    using contrastInv_run [of seed es] by (simp add: contrastInv_def)
  have lv: "0 \<le> staircaseLevel (contrastRun seed evs)"
    using contrastInv_run [of seed evs] by (simp add: contrastInv_def)
  obtain p where p: "p \<in> set basePlates"
      "choosePlateForLevel (trialIndex (contrastRun seed evs)) seed
         (staircaseLevel (contrastRun seed evs)) = Some p"
    using choosePlate_Some [OF lv] by blast
  have "map_option plateOf (currentPlate (contrastRun seed evs)) = Some p"
    using p(2) by (cases p) (simp_all add: currentPlate_def currentPlateFor_def seed)
  then show ?thesis
    using p by (auto simp add: Let_def currentPlate_def seed)
qed

theorem staircase_level_clamped_witness:
  "staircaseLevel (contrastRun 12345 scenarioE) = 0 \<and>
   trim (currentAnswer (contrastRun 12345 scenarioE)) = ''x'' \<and>
   staircaseLevel (handleSubmit (contrastRun 12345 scenarioE)) = 0 \<and>
   staircaseLevel (contrastRun 12345 scenarioTop) = 8 \<and>
   trim (currentAnswer (contrastRun 12345 scenarioTop)) = ''8'' \<and>
   staircaseLevel (handleSubmit (contrastRun 12345 scenarioTop)) = 8"
proof -
  have e: "staircaseLevel (contrastRun 12345 scenarioE) = 0"
    "trim (currentAnswer (contrastRun 12345 scenarioE)) = ''x''"
    "currentPlate (contrastRun 12345 scenarioE) =
       Some (WithDifficultyFactor (Noise ''29'' 3) (14 / 100))"
    by code_simp+
  have t: "staircaseLevel (contrastRun 12345 scenarioTop) = 8"
    "trim (currentAnswer (contrastRun 12345 scenarioTop)) = ''8''"
    "currentPlate (contrastRun 12345 scenarioTop) =
       Some (WithDifficultyFactor (Noise ''8'' 2) (85 / 100))"
    by code_simp+
  have c: "\<not> isCorrect ''x'' (Noise ''29'' 3)"
    "isCorrect ''8'' (Noise ''8'' 2)"
    by code_simp+
  show ?thesis
    using staircase_level_clamped [of 12345 scenarioE]
      staircase_level_clamped [of 12345 scenarioTop] e t c
    by (simp add: Let_def)
qed

theorem empty_submission_rejected_witness:
  "trim (currentAnswer (contrastRun 12345 [StartTestClick, AnswerInput ''   ''])) = [] \<and>
   contrastStep (contrastRun 12345 [StartTestClick, AnswerInput ''   '']) Submit =
     contrastRun 12345 [StartTestClick, AnswerInput ''   ''] \<and>
   trialIndex (contrastRun 12345 [StartTestClick, AnswerInput ''   '', Submit]) = 0"
proof -
  have a: "trim (currentAnswer (contrastRun 12345 [StartTestClick, AnswerInput ''   ''])) = []"
    by code_simp
  have b: "trialIndex (contrastRun 12345 [StartTestClick, AnswerInput ''   '']) = 0"
    by code_simp
  have c: "contrastRun 12345 [StartTestClick, AnswerInput ''   '', Submit] =
      contrastStep (contrastRun 12345 [StartTestClick, AnswerInput ''   '']) Submit"
    by (simp add: contrastRun_def)
  show ?thesis
    using empty_submission_rejected [OF a] a b c by simp
qed

theorem plate_selection_deterministic_witness:
  "trialIndex (contrastRun 12345 upThenDown) = 2 \<and>
   trialIndex (contrastRun 12345 downThenUp) = 2 \<and>
   staircaseLevel (contrastRun 12345 upThenDown) = 4 \<and>
   staircaseLevel (contrastRun 12345 downThenUp) = 4 \<and>
   map correct (history (contrastRun 12345 upThenDown)) = [True, False] \<and>
   map correct (history (contrastRun 12345 downThenUp)) = [False, True] \<and>
   currentPlate (contrastRun 12345 upThenDown) = currentPlate (contrastRun 12345 downThenUp) \<and>
   choosePlateForLevel 2 12345 4 = Some (Number ''3'' (22 / 100))"
proof -
  have a: "trialIndex (contrastRun 12345 upThenDown) = 2"
    "trialIndex (contrastRun 12345 downThenUp) = 2"
    "staircaseLevel (contrastRun 12345 upThenDown) = 4"
    "staircaseLevel (contrastRun 12345 downThenUp) = 4"
    "map correct (history (contrastRun 12345 upThenDown)) = [True, False]"
    "map correct (history (contrastRun 12345 downThenUp)) = [False, True]"
    "choosePlateForLevel 2 12345 4 = Some (Number ''3'' (22 / 100))"
    by code_simp+
  have "currentPlate (contrastRun 12345 upThenDown) =
        currentPlate (contrastRun 12345 downThenUp)"
    using plate_selection_deterministic [of 12345 upThenDown downThenUp] a(1-4)
    by presburger
  then show ?thesis
    using a by simp
qed

section \<open>Properties of the Gaze Calibration Tracker\<close>


lemma onResults_baseline_frozen:
  "baseline s = Some b \<Longrightarrow> baseline (onResults f s) = Some b"
  by (simp add: onResults_def Let_def split: list.splits option.splits prod.splits)

text \<open>
  C3. Whether the session ends by the timeout or by the stop button, the result handed
  to \<open>onComplete\<close> flags a direction exactly when its counter is at least 8, and its
  verdict is \<open>normal\<close> exactly when all four flags are set, \<open>abnormal\<close> otherwise.
\<close>

theorem gaze_verdict:
  "e = DurationElapsed \<and> stopTimer s \<or> e = StopButton \<and> running s \<Longrightarrow>
     \<exists>r. completions (gazeStep s e) = completions s @ [r] \<and>
         (leftOK r \<longleftrightarrow> 8 \<le> left (detections s)) \<and>
         (rightOK r \<longleftrightarrow> 8 \<le> right (detections s)) \<and>
         (upOK r \<longleftrightarrow> 8 \<le> up (detections s)) \<and>
         (downOK r \<longleftrightarrow> 8 \<le> down (detections s)) \<and>
         (verdict r = normal \<longleftrightarrow> leftOK r \<and> rightOK r \<and> upOK r \<and> downOK r) \<and>
         (verdict r = abnormal \<longleftrightarrow> \<not> (leftOK r \<and> rightOK r \<and> upOK r \<and> downOK r))"
  by (auto simp add: finishAndCleanup_def stopHandler_def cleanup_def evaluate_def
      MIN_DETECTIONS_def Let_def)

theorem gaze_verdict_witness:
  "stopTimer scenarioD \<and> running scenarioD \<and>
   completions (gazeStep scenarioD DurationElapsed) =
     [\<lparr>leftOK = True, rightOK = False, upOK = True, downOK = True, verdict = abnormal\<rparr>] \<and>
   completions (gazeStep scenarioD StopButton) =
     [\<lparr>leftOK = True, rightOK = False, upOK = True, downOK = True, verdict = abnormal\<rparr>]"
  using gaze_verdict [of DurationElapsed scenarioD] gaze_verdict [of StopButton scenarioD]
  by (simp add: scenarioD_def finishAndCleanup_def stopHandler_def cleanup_def evaluate_def
      MIN_DETECTIONS_def Let_def)

text \<open>
  C4. Two frames with a face, the eyes at \<open>x = 0.4\<close> in the first and at \<open>x = 0.6\<close> in
  the second: the baseline is the first frame's position, not the mean of the two, the
  calibration count stops at 1, and the second frame is already counted as a look to
  the right.
\<close>

theorem calibration_ends_after_first_frame:
  "(let s = gazeRun [StartButton Started, FrameArrives (faceAt (4 / 10) (5 / 10)),
                     FrameArrives (faceAt (6 / 10) (5 / 10))]
    in baseline s = Some \<lparr>lx = 4 / 10, ly = 5 / 10, rx = 4 / 10, ry = 5 / 10\<rparr> \<and>
       calibFrames s = 1 \<and>
       detections s = \<lparr>left = 0, right = 1, up = 0, down = 0\<rparr>)"
  by (simp add: gazeRun_def initialIrisTracker_def startHandler_def noDetections_def
      cleanup_def onResults_def faceAt_def eyeCentroid_def leftEyeIdx_def rightEyeIdx_def
      runningAverage_def countDetections_def CALIB_DURATION_FRAMES_def DX_THRESHOLD_def
      DY_THRESHOLD_def Let_def)




end
